theory Spec2Isabelle
  imports Main "HOL-Library.Sublist"
begin

section \<open>Python values\<close>

text \<open>
  The values that \<^verbatim>\<open>json.loads\<close> and \<^verbatim>\<open>response.json()\<close> hand to the program.
  Numbers are integers; floating-point numbers are outside the model. A decoded object is
  an association list read with \<open>map_of\<close> (the first binding of a key is the effective one).
\<close>

datatype json =
    JNull
  | JBool bool
  | JNum int
  | JStr string
  | JArr "json list"
  | JObj "(string \<times> json) list"

type_synonym pydict = "(string \<times> json) list"

text \<open>An exception is represented by \<^verbatim>\<open>str(e)\<close>, the only thing a handler of the program reads.\<close>

type_synonym exn = string

text \<open>\<^verbatim>\<open>d.get(key, default)\<close> and \<^verbatim>\<open>d.get(key)\<close> on a dict.\<close>

definition dict_get :: "pydict \<Rightarrow> string \<Rightarrow> json \<Rightarrow> json" where
  "dict_get d k dflt = (case map_of d k of None \<Rightarrow> dflt | Some v \<Rightarrow> v)"

definition dict_get_none :: "pydict \<Rightarrow> string \<Rightarrow> json" where
  "dict_get_none d k = dict_get d k JNull"

text \<open>Truthiness of a value, as \<^verbatim>\<open>if v:\<close> tests it.\<close>

fun py_truthy :: "json \<Rightarrow> bool" where
  "py_truthy JNull = False"
| "py_truthy (JBool b) = b"
| "py_truthy (JNum n) = (n \<noteq> 0)"
| "py_truthy (JStr s) = (s \<noteq> [])"
| "py_truthy (JArr xs) = (xs \<noteq> [])"
| "py_truthy (JObj d) = (d \<noteq> [])"

text \<open>The name \<^verbatim>\<open>type(v).__name__\<close> that CPython puts into its error messages.\<close>

fun py_type_name :: "json \<Rightarrow> string" where
  "py_type_name JNull = ''NoneType''"
| "py_type_name (JBool b) = ''bool''"
| "py_type_name (JNum n) = ''int''"
| "py_type_name (JStr s) = ''str''"
| "py_type_name (JArr xs) = ''list''"
| "py_type_name (JObj d) = ''dict''"

definition attribute_error :: "json \<Rightarrow> string \<Rightarrow> exn" where
  "attribute_error v a =
     [CHR 0x27] @ py_type_name v @ [CHR 0x27] @ '' object has no attribute '' @ [CHR 0x27] @ a @ [CHR 0x27]"

text \<open>\<^verbatim>\<open>sub in s\<close> on strings: \<open>sub\<close> occurs in \<open>s\<close> as a contiguous block.\<close>

fun py_in :: "string \<Rightarrow> string \<Rightarrow> bool" where
  "py_in sub [] = (sub = [])"
| "py_in sub (c # cs) = (prefix sub (c # cs) \<or> py_in sub cs)"

text \<open>\<^verbatim>\<open>str.lower()\<close> on ASCII text (a \<open>char\<close> is a byte; other bytes are left as they are).\<close>

definition lower_char :: "char \<Rightarrow> char" where
  "lower_char c =
     (case map_of (zip ''ABCDEFGHIJKLMNOPQRSTUVWXYZ'' ''abcdefghijklmnopqrstuvwxyz'') c of
        None \<Rightarrow> c | Some l \<Rightarrow> l)"

definition py_lower :: "string \<Rightarrow> string" where
  "py_lower s = map lower_char s"

text \<open>Decimal text of an integer, as \<^verbatim>\<open>str(n)\<close> gives it.\<close>

definition digit_char :: "nat \<Rightarrow> char" where
  "digit_char d = ''0123456789'' ! (d mod 10)"

fun str_nat :: "nat \<Rightarrow> string" where
  "str_nat n = (if n < 10 then [digit_char n] else str_nat (n div 10) @ [digit_char (n mod 10)])"

declare str_nat.simps [simp del]

definition str_int :: "int \<Rightarrow> string" where
  "str_int i = (if i < 0 then ''-'' @ str_nat (nat (- i)) else str_nat (nat i))"

text \<open>
  \<^verbatim>\<open>repr\<close> of a string: single quotes unless the text holds a single quote and no double
  quote; backslash, the chosen quote, tab, newline and carriage return are escaped, other
  control characters are written \<^verbatim>\<open>\xNN\<close>.
\<close>

definition hex_char :: "nat \<Rightarrow> char" where
  "hex_char d = ''0123456789abcdef'' ! (d mod 16)"

definition repr_char :: "char \<Rightarrow> char \<Rightarrow> string" where
  "repr_char q c =
     (if c = CHR 0x5C then [CHR 0x5C, CHR 0x5C]
      else if c = q then [CHR 0x5C, q]
      else if c = CHR 0x09 then [CHR 0x5C, CHR ''t'']
      else if c = CHR 0x0A then [CHR 0x5C, CHR ''n'']
      else if c = CHR 0x0D then [CHR 0x5C, CHR ''r'']
      else if (of_char c :: nat) < 32 \<or> c = CHR 0x7F
        then [CHR 0x5C, CHR ''x'', hex_char ((of_char c :: nat) div 16), hex_char (of_char c :: nat)]
      else [c])"

definition repr_str :: "string \<Rightarrow> string" where
  "repr_str s =
     (let q = (if CHR 0x27 \<in> set s \<and> CHR 0x22 \<notin> set s then CHR 0x22 else CHR 0x27)
      in [q] @ concat (map (repr_char q) s) @ [q])"

fun join_comma :: "string list \<Rightarrow> string" where
  "join_comma [] = []"
| "join_comma [x] = x"
| "join_comma (x # y # ys) = x @ '', '' @ join_comma (y # ys)"

fun py_repr :: "json \<Rightarrow> string" where
  "py_repr JNull = ''None''"
| "py_repr (JBool b) = (if b then ''True'' else ''False'')"
| "py_repr (JNum n) = str_int n"
| "py_repr (JStr s) = repr_str s"
| "py_repr (JArr xs) = ''['' @ join_comma (map py_repr xs) @ '']''"
| "py_repr (JObj d) =
     ''{'' @ join_comma (map (\<lambda>kv. repr_str (fst kv) @ '': '' @ py_repr (snd kv)) d) @ ''}''"

text \<open>\<^verbatim>\<open>str(v)\<close>, which an f-string applies to a value: a string is itself.\<close>

definition py_str :: "json \<Rightarrow> string" where
  "py_str v = (case v of JStr s \<Rightarrow> s | _ \<Rightarrow> py_repr v)"

section \<open>The local runtime as seen by the program\<close>

text \<open>
  Everything outside the process is a \<open>world\<close>: for each endpoint of the runtime the
  replies it will give, in the order the requests arrive, and a log \<open>sent\<close> of what the
  program has done to it. A reply is \<open>Inl e\<close> when the call raises (connection refused,
  timeout) and \<open>Inr r\<close> when it returns. A request that finds its queue empty is refused.
  The sampling options of a generation request are constants of the configuration and are
  not part of the log; the lazily created HTTP client of \<^verbatim>\<open>get_client\<close> has no behaviour
  of its own.
\<close>

record http_response =
  status_code :: nat
  body :: "exn + json"

text \<open>
  A line of a streamed body, by what \<^verbatim>\<open>if line:\<close> and \<^verbatim>\<open>json.loads(line)\<close> make of
  it: empty; a line on which the decoder raises \<^verbatim>\<open>JSONDecodeError\<close>; a line on which it
  raises any other exception \<open>e\<close> (\<^verbatim>\<open>RecursionError\<close> on deeply nested text,
  \<^verbatim>\<open>ValueError\<close> on a number beyond the digit limit), which the handlers at lines 121 and
  252 do not catch; or a decoded value.
\<close>

datatype line = Blank | Undecodable | Failed exn | Decoded json

record stream =
  stream_status :: nat
  stream_lines :: "line list"
  stream_fault :: "exn option"

datatype request =
    GetVersion
  | Popen bool
  | Sleep nat
  | GetTags
  | PostPull string
  | PostGenerate string string bool
  | PostRemote string

record world =
  is_windows :: bool
  version_replies :: "(exn + nat) list"
  popen_faults :: "exn option list"
  tags_replies :: "(exn + http_response) list"
  pull_replies :: "(exn + stream) list"
  generate_replies :: "(exn + http_response) list"
  generate_streams :: "(exn + stream) list"
  remote_replies :: "(exn + http_response) list"
  sent :: "request list"

definition refused :: exn where
  "refused = ''All connection attempts failed''"

definition get_version :: "world \<Rightarrow> (exn + nat) \<times> world" where
  "get_version w =
     (case version_replies w of
        [] \<Rightarrow> (Inl refused, w\<lparr>sent := sent w @ [GetVersion]\<rparr>)
      | r # rs \<Rightarrow> (r, w\<lparr>version_replies := rs, sent := sent w @ [GetVersion]\<rparr>))"

definition popen_serve :: "world \<Rightarrow> exn option \<times> world" where
  "popen_serve w =
     (case popen_faults w of
        [] \<Rightarrow> (None, w\<lparr>sent := sent w @ [Popen (is_windows w)]\<rparr>)
      | r # rs \<Rightarrow> (r, w\<lparr>popen_faults := rs, sent := sent w @ [Popen (is_windows w)]\<rparr>))"

definition sleep :: "nat \<Rightarrow> world \<Rightarrow> world" where
  "sleep secs w = w\<lparr>sent := sent w @ [Sleep secs]\<rparr>"

definition get_tags :: "world \<Rightarrow> (exn + http_response) \<times> world" where
  "get_tags w =
     (case tags_replies w of
        [] \<Rightarrow> (Inl refused, w\<lparr>sent := sent w @ [GetTags]\<rparr>)
      | r # rs \<Rightarrow> (r, w\<lparr>tags_replies := rs, sent := sent w @ [GetTags]\<rparr>))"

definition post_pull :: "string \<Rightarrow> world \<Rightarrow> (exn + stream) \<times> world" where
  "post_pull name w =
     (case pull_replies w of
        [] \<Rightarrow> (Inl refused, w\<lparr>sent := sent w @ [PostPull name]\<rparr>)
      | r # rs \<Rightarrow> (r, w\<lparr>pull_replies := rs, sent := sent w @ [PostPull name]\<rparr>))"

definition post_generate :: "string \<Rightarrow> string \<Rightarrow> world \<Rightarrow> (exn + http_response) \<times> world" where
  "post_generate mdl prompt w =
     (case generate_replies w of
        [] \<Rightarrow> (Inl refused, w\<lparr>sent := sent w @ [PostGenerate mdl prompt False]\<rparr>)
      | r # rs \<Rightarrow>
          (r, w\<lparr>generate_replies := rs, sent := sent w @ [PostGenerate mdl prompt False]\<rparr>))"

definition post_generate_stream :: "string \<Rightarrow> string \<Rightarrow> world \<Rightarrow> (exn + stream) \<times> world" where
  "post_generate_stream mdl prompt w =
     (case generate_streams w of
        [] \<Rightarrow> (Inl refused, w\<lparr>sent := sent w @ [PostGenerate mdl prompt True]\<rparr>)
      | r # rs \<Rightarrow>
          (r, w\<lparr>generate_streams := rs, sent := sent w @ [PostGenerate mdl prompt True]\<rparr>))"

definition post_remote :: "string \<Rightarrow> world \<Rightarrow> (exn + http_response) \<times> world" where
  "post_remote url w =
     (case remote_replies w of
        [] \<Rightarrow> (Inl refused, w\<lparr>sent := sent w @ [PostRemote url]\<rparr>)
      | r # rs \<Rightarrow> (r, w\<lparr>remote_replies := rs, sent := sent w @ [PostRemote url]\<rparr>))"

section \<open>Configuration (config.py)\<close>

record config =
  model_preferences :: "(string \<times> string list) list"
  claude_api_key :: string
  openai_api_key :: string
  deepseek_api_key :: string


definition get_system_prompt :: string where
  "get_system_prompt =
     ''You are JARVIS, an advanced AI assistant created to help with various tasks including:\<newline>''
   @ ''\<newline>''
   @ ''1. Coding and Programming - Write, debug, and explain code in multiple languages\<newline>''
   @ ''2. Data Analysis and Predictions - Analyze data patterns and make informed predictions\<newline>''
   @ ''3. General Assistance - Answer questions and help with various tasks\<newline>''
   @ ''4. File Processing - Analyze and extract information from uploaded files\<newline>''
   @ ''5. Research and Information - Provide accurate and helpful information\<newline>''
   @ ''\<newline>''
   @ ''You should be:\<newline>''
   @ ''- Professional yet friendly\<newline>''
   @ ''- Accurate and helpful\<newline>''
   @ ''- Clear in your explanations\<newline>''
   @ ''- Proactive in suggesting improvements\<newline>''
   @ ''- Honest about your limitations\<newline>''
   @ ''\<newline>''
   @ ''When working with code, always provide clean, well-commented, and efficient solutions.\<newline>''
   @ ''When making predictions, explain your reasoning and any assumptions.\<newline>''
   @ ''When uncertain, acknowledge it and suggest ways to get better information.''"

section \<open>ModelManager (utils/model\_manager.py)\<close>

record model_manager =
  current_model :: string

definition check_ollama_status :: "world \<Rightarrow> bool \<times> world" where
  "check_ollama_status w =
     (case get_version w of
        (Inl e, w') \<Rightarrow> (False, w')
      | (Inr code, w') \<Rightarrow> (code = 200, w'))"

definition start_ollama :: "world \<Rightarrow> bool \<times> world" where
  "start_ollama w =
     (case check_ollama_status w of
        (True, w1) \<Rightarrow> (True, w1)
      | (False, w1) \<Rightarrow>
          (case popen_serve w1 of
             (Some e, w2) \<Rightarrow> (False, w2)
           | (None, w2) \<Rightarrow> check_ollama_status (sleep 5 w2)))"

text \<open>
  The guard that opens \<^verbatim>\<open>get_available_models\<close>, \<^verbatim>\<open>pull_model\<close>, \<^verbatim>\<open>generate_response\<close>
  and \<^verbatim>\<open>generate_streaming_response\<close>:
  \<^verbatim>\<open>if not await self.check_ollama_status(): if not await self.start_ollama(): return ...\<close>.
  It is \<open>True\<close> when the function goes on.
\<close>

definition ensure_running :: "world \<Rightarrow> bool \<times> world" where
  "ensure_running w =
     (case check_ollama_status w of
        (True, w1) \<Rightarrow> (True, w1)
      | (False, w1) \<Rightarrow> start_ollama w1)"

text \<open>
  \<^verbatim>\<open>[model["name"] for model in data.get("models", [])]\<close>; \<open>None\<close> when the expression
  raises (an entry that is no object or has no name).
\<close>

fun model_names :: "json list \<Rightarrow> json list option" where
  "model_names [] = Some []"
| "model_names (JObj d # ms) =
     (case map_of d ''name'' of
        None \<Rightarrow> None
      | Some n \<Rightarrow> (case model_names ms of None \<Rightarrow> None | Some ns \<Rightarrow> Some (n # ns)))"
| "model_names (m # ms) = None"

text \<open>
  The body of the listing read at lines 84 to 86. A body that is no object, or whose
  \<^verbatim>\<open>models\<close> is no list, raises or has nothing to iterate over: the result is the empty
  list of line 93 either way.
\<close>

definition listed_models :: "json \<Rightarrow> json list" where
  "listed_models data =
     (case data of
        JObj d \<Rightarrow>
          (case dict_get d ''models'' (JArr []) of
             JArr ms \<Rightarrow> (case model_names ms of None \<Rightarrow> [] | Some ns \<Rightarrow> ns)
           | _ \<Rightarrow> [])
      | _ \<Rightarrow> [])"

definition get_available_models :: "world \<Rightarrow> json list \<times> world" where
  "get_available_models w =
     (case ensure_running w of
        (False, w1) \<Rightarrow> ([], w1)
      | (True, w1) \<Rightarrow>
          (case get_tags w1 of
             (Inl e, w2) \<Rightarrow> ([], w2)
           | (Inr r, w2) \<Rightarrow>
               (if status_code r = 200
                then (case body r of Inl e \<Rightarrow> ([], w2) | Inr data \<Rightarrow> (listed_models data, w2))
                else ([], w2))))"

text \<open>
  One decoded line of the pull stream (lines 114 to 120): \<open>Inr True\<close> when the function
  returns \<open>True\<close> there, \<open>Inr False\<close> when the loop goes on, \<open>Inl e\<close> when the line raises
  (the value is no object, or its status is no string) and the outer handler takes over.
\<close>

definition pull_event :: "json \<Rightarrow> exn + bool" where
  "pull_event data =
     (case data of
        JObj d \<Rightarrow>
          (case dict_get d ''status'' (JStr []) of
             JStr status \<Rightarrow>
               Inr (py_in ''success'' (py_lower status) \<or> dict_get_none d ''status'' = JStr ''success'')
           | other \<Rightarrow> Inl (attribute_error other ''lower''))
      | _ \<Rightarrow> Inl (attribute_error data ''get''))"

text \<open>
  The loop over \<^verbatim>\<open>response.aiter_lines()\<close> and what follows it: line 127 when the
  stream ends, line 131 when reading it raises. A line that the decoder rejects with
  \<^verbatim>\<open>JSONDecodeError\<close> is skipped (line 122); any other exception of the decoder leaves
  the loop for line 131.
\<close>

fun pull_lines :: "line list \<Rightarrow> exn option \<Rightarrow> bool" where
  "pull_lines [] fault = (case fault of None \<Rightarrow> True | Some e \<Rightarrow> False)"
| "pull_lines (Blank # ls) fault = pull_lines ls fault"
| "pull_lines (Undecodable # ls) fault = pull_lines ls fault"
| "pull_lines (Failed e # ls) fault = False"
| "pull_lines (Decoded data # ls) fault =
     (case pull_event data of
        Inl e \<Rightarrow> False
      | Inr True \<Rightarrow> True
      | Inr False \<Rightarrow> pull_lines ls fault)"

definition pull_model :: "string \<Rightarrow> world \<Rightarrow> bool \<times> world" where
  "pull_model model_name w =
     (case ensure_running w of
        (False, w1) \<Rightarrow> (False, w1)
      | (True, w1) \<Rightarrow>
          (case post_pull model_name w1 of
             (Inl e, w2) \<Rightarrow> (False, w2)
           | (Inr s, w2) \<Rightarrow>
               (if stream_status s = 200
                then (pull_lines (stream_lines s) (stream_fault s), w2)
                else (False, w2))))"

text \<open>
  \<^verbatim>\<open>_prepare_prompt\<close>: the loop over the last ten messages adds a line for a user or an
  assistant message and nothing for any other role.
\<close>

fun add_history :: "string \<Rightarrow> pydict list \<Rightarrow> string" where
  "add_history context [] = context"
| "add_history context (msg # rest) =
     (let role = dict_get msg ''role'' (JStr ''user'');
          content = dict_get msg ''content'' (JStr [])
      in add_history
           (if role = JStr ''user'' then context @ ''User: '' @ py_str content @ ''\<newline>''
            else if role = JStr ''assistant''
              then context @ ''Assistant: '' @ py_str content @ ''\<newline>''
            else context)
           rest)"

definition last10 :: "'a list \<Rightarrow> 'a list" where
  "last10 xs = drop (length xs - 10) xs"

definition prepare_prompt :: "string \<Rightarrow> pydict list option \<Rightarrow> string" where
  "prepare_prompt message conversation_history =
     (let context = ''System: '' @ get_system_prompt @ ''\<newline>\<newline>'';
          context' = (case conversation_history of
                        None \<Rightarrow> context
                      | Some h \<Rightarrow> (if h \<noteq> [] then add_history context (last10 h) else context))
      in context' @ ''User: '' @ message @ ''\<newline>Assistant: '')"

text \<open>\<^verbatim>\<open>model or self.current_model\<close>.\<close>

definition model_to_use :: "model_manager \<Rightarrow> string option \<Rightarrow> string" where
  "model_to_use m mdl =
     (case mdl of None \<Rightarrow> current_model m | Some n \<Rightarrow> (if n \<noteq> [] then n else current_model m))"

definition generate_response ::
  "model_manager \<Rightarrow> string \<Rightarrow> string option \<Rightarrow> pydict list option \<Rightarrow> world \<Rightarrow> json \<times> world" where
  "generate_response m message mdl conversation_history w =
     (case ensure_running w of
        (False, w1) \<Rightarrow> (JStr ''Error: Ollama service is not available'', w1)
      | (True, w1) \<Rightarrow>
          (case post_generate (model_to_use m mdl) (prepare_prompt message conversation_history) w1 of
             (Inl e, w2) \<Rightarrow> (JStr (''Error: '' @ e), w2)
           | (Inr r, w2) \<Rightarrow>
               (if status_code r = 200
                then (case body r of
                        Inl e \<Rightarrow> (JStr (''Error: '' @ e), w2)
                      | Inr (JObj d) \<Rightarrow> (dict_get d ''response'' (JStr ''No response generated''), w2)
                      | Inr data \<Rightarrow> (JStr (''Error: '' @ attribute_error data ''get''), w2))
                else (JStr (''Error: Failed to generate response (Status: ''
                              @ str_nat (status_code r) @ '')''), w2))))"

text \<open>
  \<^verbatim>\<open>switch_model\<close>. The probe's answer is read with \<^verbatim>\<open>test_response.lower()\<close>, which
  raises on anything but a string; the handler at line 158 then returns \<open>False\<close>.
\<close>

definition probe_message :: string where
  "probe_message = ''Hello, respond with '' @ [CHR 0x27] @ ''Model switched successfully'' @ [CHR 0x27]"

definition switch_model :: "string \<Rightarrow> model_manager \<Rightarrow> world \<Rightarrow> bool \<times> model_manager \<times> world" where
  "switch_model model_name m w =
     (case get_available_models w of (available_models, w1) \<Rightarrow>
        (case (if JStr model_name \<notin> set available_models then pull_model model_name w1 else (True, w1)) of
           (False, w2) \<Rightarrow> (False, m, w2)
         | (True, w2) \<Rightarrow>
             (case generate_response m probe_message (Some model_name) None w2 of
                (JStr test_response, w3) \<Rightarrow>
                  (if py_in ''successfully'' (py_lower test_response) \<or> py_truthy (JStr test_response)
                   then (True, m\<lparr>current_model := model_name\<rparr>, w3)
                   else (False, m, w3))
              | (other, w3) \<Rightarrow> (False, m, w3))))"

text \<open>
  What lines 247 to 250 raise on a decoded value that is no object: the membership test,
  the subscript or the \<^verbatim>\<open>get\<close>, whichever fails first.
\<close>

definition not_an_event :: "json \<Rightarrow> exn" where
  "not_an_event data =
     (case data of
        JArr xs \<Rightarrow>
          (if JStr ''response'' \<in> set xs then ''list indices must be integers or slices, not str''
           else attribute_error data ''get'')
      | JStr s \<Rightarrow>
          (if py_in ''response'' s
           then ''string indices must be integers, not '' @ [CHR 0x27] @ ''str'' @ [CHR 0x27]
           else attribute_error data ''get'')
      | _ \<Rightarrow> ''argument of type '' @ [CHR 0x27] @ py_type_name data @ [CHR 0x27] @ '' is not iterable'')"

text \<open>
  The chunks that the loop of \<^verbatim>\<open>generate_streaming_response\<close> yields, in order, to a
  consumer that reads the generator to its end. A line that the decoder rejects with
  \<^verbatim>\<open>JSONDecodeError\<close> is skipped (line 253); any other exception of the decoder, like
  an exception of lines 247 to 250, reaches the handler at line 257, which yields one
  error chunk and ends the stream.
\<close>

fun stream_chunks :: "line list \<Rightarrow> exn option \<Rightarrow> json list" where
  "stream_chunks [] fault = (case fault of None \<Rightarrow> [] | Some e \<Rightarrow> [JStr (''Error: '' @ e)])"
| "stream_chunks (Blank # ls) fault = stream_chunks ls fault"
| "stream_chunks (Undecodable # ls) fault = stream_chunks ls fault"
| "stream_chunks (Failed e # ls) fault = [JStr (''Error: '' @ e)]"
| "stream_chunks (Decoded (JObj d) # ls) fault =
     (case map_of d ''response'' of None \<Rightarrow> [] | Some v \<Rightarrow> [v])
     @ (if py_truthy (dict_get d ''done'' (JBool False)) then [] else stream_chunks ls fault)"
| "stream_chunks (Decoded data # ls) fault = [JStr (''Error: '' @ not_an_event data)]"

definition generate_streaming_response ::
  "model_manager \<Rightarrow> string \<Rightarrow> string option \<Rightarrow> pydict list option \<Rightarrow> world \<Rightarrow> json list \<times> world" where
  "generate_streaming_response m message mdl conversation_history w =
     (case ensure_running w of
        (False, w1) \<Rightarrow> ([JStr ''Error: Ollama service is not available''], w1)
      | (True, w1) \<Rightarrow>
          (case post_generate_stream (model_to_use m mdl)
                  (prepare_prompt message conversation_history) w1 of
             (Inl e, w2) \<Rightarrow> ([JStr (''Error: '' @ e)], w2)
           | (Inr s, w2) \<Rightarrow>
               (if stream_status s = 200
                then (stream_chunks (stream_lines s) (stream_fault s), w2)
                else ([JStr (''Error: Failed to generate response (Status: ''
                               @ str_nat (stream_status s) @ '')'')], w2))))"



section \<open>The application (main.py)\<close>

record chat_message =
  message :: string
  model :: string
  use_online :: bool
  online_provider :: "string option"
  session_id :: "string option"

text \<open>
  \<open>sessions\<close> is \<^verbatim>\<open>manager.sessions\<close>, a dict from session id to the list of its messages;
  \<open>model_manager\<close> is the module's \<^verbatim>\<open>ModelManager\<close> instance.
\<close>

record server =
  sessions :: "string \<rightharpoonup> pydict list"
  model_manager :: model_manager

datatype http_exception = HTTPException nat string

text \<open>Subscripts on decoded values: \<^verbatim>\<open>v[key]\<close> with a string key, and \<^verbatim>\<open>v[0]\<close>.\<close>

definition not_subscriptable :: "json \<Rightarrow> exn" where
  "not_subscriptable v = [CHR 0x27] @ py_type_name v @ [CHR 0x27] @ '' object is not subscriptable''"

definition item_key :: "json \<Rightarrow> string \<Rightarrow> exn + json" where
  "item_key v k =
     (case v of
        JObj d \<Rightarrow> (case map_of d k of None \<Rightarrow> Inl (repr_str k) | Some x \<Rightarrow> Inr x)
      | JArr xs \<Rightarrow> Inl ''list indices must be integers or slices, not str''
      | JStr s \<Rightarrow> Inl (''string indices must be integers, not '' @ [CHR 0x27] @ ''str'' @ [CHR 0x27])
      | _ \<Rightarrow> Inl (not_subscriptable v))"

definition item_first :: "json \<Rightarrow> exn + json" where
  "item_first v =
     (case v of
        JArr xs \<Rightarrow> (case xs of [] \<Rightarrow> Inl ''list index out of range'' | x # _ \<Rightarrow> Inr x)
      | JStr s \<Rightarrow> (case s of [] \<Rightarrow> Inl ''string index out of range'' | c # _ \<Rightarrow> Inr (JStr [c]))
      | JObj d \<Rightarrow> Inl ''0''
      | _ \<Rightarrow> Inl (not_subscriptable v))"

definition and_then :: "exn + json \<Rightarrow> (json \<Rightarrow> exn + json) \<Rightarrow> exn + json" where
  "and_then r f = (case r of Inl e \<Rightarrow> Inl e | Inr v \<Rightarrow> f v)"

text \<open>
  The three provider calls. \<open>Inl e\<close> is an exception that leaves the function; it is the
  caller, \<^verbatim>\<open>process_online_model\<close>, that turns it into text.
\<close>

definition call_claude_api :: "config \<Rightarrow> string \<Rightarrow> pydict list \<Rightarrow> world \<Rightarrow> (exn + json) \<times> world" where
  "call_claude_api cfg msg history w =
     (if claude_api_key cfg = [] then (Inr (JStr ''Claude API key not configured''), w)
      else
        (case post_remote ''https://api.anthropic.com/v1/messages'' w of
           (Inl e, w1) \<Rightarrow> (Inl e, w1)
         | (Inr r, w1) \<Rightarrow>
             (if status_code r = 200
              then (and_then (and_then (and_then (body r)
                      (\<lambda>result. item_key result ''content'')) item_first)
                      (\<lambda>block. item_key block ''text''), w1)
              else (Inr (JStr (''Claude API error: '' @ str_nat (status_code r))), w1))))"

text \<open>
  \<^verbatim>\<open>call_openai_api\<close> first copies the last ten messages, reading \<^verbatim>\<open>h["role"]\<close> and
  \<^verbatim>\<open>h["content"]\<close> of each; a message without one of them raises before any request.
\<close>

fun copy_turns :: "pydict list \<Rightarrow> exn + pydict list" where
  "copy_turns [] = Inr []"
| "copy_turns (h # hs) =
     (case map_of h ''role'' of
        None \<Rightarrow> Inl (repr_str ''role'')
      | Some r \<Rightarrow>
          (case map_of h ''content'' of
             None \<Rightarrow> Inl (repr_str ''content'')
           | Some c \<Rightarrow>
               (case copy_turns hs of
                  Inl e \<Rightarrow> Inl e
                | Inr ts \<Rightarrow> Inr ([(''role'', r), (''content'', c)] # ts))))"

definition call_openai_api :: "config \<Rightarrow> string \<Rightarrow> pydict list \<Rightarrow> world \<Rightarrow> (exn + json) \<times> world" where
  "call_openai_api cfg msg history w =
     (if openai_api_key cfg = [] then (Inr (JStr ''OpenAI API key not configured''), w)
      else
        (case copy_turns (last10 history) of
           Inl e \<Rightarrow> (Inl e, w)
         | Inr turns \<Rightarrow>
             (case post_remote ''https://api.openai.com/v1/chat/completions'' w of
                (Inl e, w1) \<Rightarrow> (Inl e, w1)
              | (Inr r, w1) \<Rightarrow>
                  (if status_code r = 200
                   then (and_then (and_then (and_then (and_then (body r)
                           (\<lambda>result. item_key result ''choices'')) item_first)
                           (\<lambda>choice. item_key choice ''message''))
                           (\<lambda>m. item_key m ''content''), w1)
                   else (Inr (JStr (''OpenAI API error: '' @ str_nat (status_code r))), w1)))))"

definition call_deepseek_api :: "config \<Rightarrow> string \<Rightarrow> pydict list \<Rightarrow> world \<Rightarrow> (exn + json) \<times> world" where
  "call_deepseek_api cfg msg history w =
     (if deepseek_api_key cfg = [] then (Inr (JStr ''DeepSeek API key not configured''), w)
      else
        (case post_remote ''https://api.deepseek.com/v1/chat/completions'' w of
           (Inl e, w1) \<Rightarrow> (Inl e, w1)
         | (Inr r, w1) \<Rightarrow>
             (if status_code r = 200
              then (and_then (and_then (and_then (and_then (body r)
                      (\<lambda>result. item_key result ''choices'')) item_first)
                      (\<lambda>choice. item_key choice ''message''))
                      (\<lambda>m. item_key m ''content''), w1)
              else (Inr (JStr (''DeepSeek API error: '' @ str_nat (status_code r))), w1))))"

definition process_online_model :: "config \<Rightarrow> string \<Rightarrow> string \<Rightarrow> pydict list \<Rightarrow> world \<Rightarrow> json \<times> world" where
  "process_online_model cfg msg provider conversation_history w =
     (case (if provider = ''claude'' then call_claude_api cfg msg conversation_history w
            else if provider = ''openai'' then call_openai_api cfg msg conversation_history w
            else if provider = ''deepseek'' then call_deepseek_api cfg msg conversation_history w
            else (Inl (''Unsupported online provider: '' @ provider), w)) of
        (Inr text, w1) \<Rightarrow> (text, w1)
      | (Inl e, w1) \<Rightarrow> (JStr (''Error processing with '' @ provider @ '': '' @ e), w1))"

text \<open>
  \<^verbatim>\<open>chat_endpoint\<close>. The fresh session id \<^verbatim>\<open>str(uuid.uuid4())\<close> and the three readings of
  \<^verbatim>\<open>datetime.now().isoformat()\<close> (user turn, assistant turn, reply) are inputs. No statement
  of the \<^verbatim>\<open>try\<close> block raises, since both generation paths return text; the handler at
  line 172, which would give \<open>Inl (HTTPException 500 detail)\<close>, is never entered.
\<close>

definition turn :: "string \<Rightarrow> json \<Rightarrow> string \<Rightarrow> pydict" where
  "turn role content stamp = [(''role'', JStr role), (''content'', content), (''timestamp'', JStr stamp)]"

definition history_of :: "(string \<rightharpoonup> pydict list) \<Rightarrow> string \<Rightarrow> pydict list" where
  "history_of ss sid = (case ss sid of None \<Rightarrow> [] | Some h \<Rightarrow> h)"

definition chat_endpoint ::
  "config \<Rightarrow> chat_message \<Rightarrow> string \<Rightarrow> string \<times> string \<times> string \<Rightarrow> server \<Rightarrow> world
     \<Rightarrow> (http_exception + pydict) \<times> server \<times> world" where
  "chat_endpoint cfg chat_request uuid4 stamps srv w =
     (case stamps of (t_user, t_assistant, t_reply) \<Rightarrow>
      let sid = (case session_id chat_request of
                   None \<Rightarrow> uuid4
                 | Some s \<Rightarrow> (if s \<noteq> [] then s else uuid4));
          ss0 = (if sid \<notin> dom (sessions srv) then (sessions srv)(sid \<mapsto> []) else sessions srv);
          ss1 = ss0(sid \<mapsto> history_of ss0 sid @ [turn ''user'' (JStr (message chat_request)) t_user]);
          online = (use_online chat_request \<and>
                    (case online_provider chat_request of None \<Rightarrow> False | Some p \<Rightarrow> p \<noteq> []))
      in case (if online
               then process_online_model cfg (message chat_request)
                      (case online_provider chat_request of None \<Rightarrow> [] | Some p \<Rightarrow> p)
                      (history_of ss1 sid) w
               else generate_response (model_manager srv) (message chat_request)
                      (Some (model chat_request)) (Some (history_of ss1 sid)) w) of
           (response, w1) \<Rightarrow>
             (Inr [(''response'', response),
                   (''session_id'', JStr sid),
                   (''model_used'',
                      (if use_online chat_request
                       then (case online_provider chat_request of None \<Rightarrow> JNull | Some p \<Rightarrow> JStr p)
                       else JStr (model chat_request))),
                   (''timestamp'', JStr t_reply)],
              srv\<lparr>sessions := ss1(sid \<mapsto> history_of ss1 sid @ [turn ''assistant'' response t_assistant])\<rparr>,
              w1))"

text \<open>\<^verbatim>\<open>get_session_history\<close> and \<^verbatim>\<open>clear_session\<close>.\<close>

definition get_session_history :: "string \<Rightarrow> server \<Rightarrow> pydict" where
  "get_session_history sid srv =
     [(''session_id'', JStr sid),
      (''messages'', JArr (map JObj (history_of (sessions srv) sid)))]"

definition clear_session :: "string \<Rightarrow> server \<Rightarrow> pydict \<times> server" where
  "clear_session sid srv =
     ([(''success'', JBool True), (''message'', JStr ''Session cleared'')],
      (if sid \<in> dom (sessions srv) then srv\<lparr>sessions := (sessions srv)(sid := None)\<rparr> else srv))"

section \<open>Concurrent calls of \<^verbatim>\<open>start_ollama\<close>\<close>

text \<open>
  \<^verbatim>\<open>start_ollama\<close> is a coroutine: it gives control back to the event loop only where it
  awaits, and runs undisturbed in between. A call is therefore in one of four places:
  waiting for the answer to its first probe (line 42), asleep (line 59), waiting for the
  answer to its second probe (line 62), or finished with its result. The event loop resumes
  one waiting call at a time, in any order. The function takes no lock and keeps no record
  of a start in progress.
\<close>

datatype call = Probing | Sleeping | Reprobing | Finished bool

record resume =
  who :: nat
  answer :: "exn + nat"
  popen_fault :: "exn option"

record event_loop =
  calls :: "call list"
  spawned :: nat

text \<open>
  Resuming a call with the answer to its probe, up to its next await: the new place of the
  call and the number of \<^verbatim>\<open>subprocess.Popen\<close> calls made on the way.
\<close>

fun resume_call :: "call \<Rightarrow> exn + nat \<Rightarrow> exn option \<Rightarrow> call \<times> nat" where
  "resume_call Probing ans fault =
     (if ans = Inr 200 then (Finished True, 0)
      else (case fault of Some e \<Rightarrow> (Finished False, 1) | None \<Rightarrow> (Sleeping, 1)))"
| "resume_call Sleeping ans fault = (Reprobing, 0)"
| "resume_call Reprobing ans fault = (Finished (ans = Inr 200), 0)"
| "resume_call (Finished b) ans fault = (Finished b, 0)"

definition deliver :: "resume \<Rightarrow> event_loop \<Rightarrow> event_loop" where
  "deliver r l =
     (if who r < length (calls l)
      then (case resume_call (calls l ! who r) (answer r) (popen_fault r) of
              (c, n) \<Rightarrow> \<lparr>calls = (calls l)[who r := c], spawned = spawned l + n\<rparr>)
      else l)"

fun run :: "resume list \<Rightarrow> event_loop \<Rightarrow> event_loop" where
  "run [] l = l"
| "run (r # rs) l = run rs (deliver r l)"

text \<open>\<open>n\<close> calls made at the same time, none resumed yet.\<close>

definition concurrent_calls :: "nat \<Rightarrow> event_loop" where
  "concurrent_calls n = \<lparr>calls = replicate n Probing, spawned = 0\<rparr>"


section \<open>Example inputs\<close>

text \<open>A runtime that is down and stays down: every request is refused.\<close>

definition down :: world where
  "down = \<lparr>is_windows = False, version_replies = [], popen_faults = [], tags_replies = [],
            pull_replies = [], generate_replies = [], generate_streams = [],
            remote_replies = [], sent = []\<rparr>"

definition status_event :: "string \<Rightarrow> line" where
  "status_event s = Decoded (JObj [(''status'', JStr s)])"

definition chunk_event :: "string \<Rightarrow> bool \<Rightarrow> line" where
  "chunk_event r d = Decoded (JObj [(''response'', JStr r), (''done'', JBool d)])"

definition ok_stream :: "line list \<Rightarrow> stream" where
  "ok_stream ls = \<lparr>stream_status = 200, stream_lines = ls, stream_fault = None\<rparr>"

definition listing :: "string list \<Rightarrow> http_response" where
  "listing names =
     \<lparr>status_code = 200,
      body = Inr (JObj [(''models'', JArr (map (\<lambda>n. JObj [(''name'', JStr n)]) names))])\<rparr>"

definition answer_text :: "string \<Rightarrow> http_response" where
  "answer_text s = \<lparr>status_code = 200, body = Inr (JObj [(''response'', JStr s)])\<rparr>"

definition llama :: model_manager where
  "llama = \<lparr>current_model = ''llama3.2''\<rparr>"

text \<open>A store with two sessions.\<close>

definition two_sessions :: server where
  "two_sessions =
     \<lparr>sessions = [''a'' \<mapsto> [turn ''user'' (JStr ''hi'') ''t0''], ''b'' \<mapsto> []],
      model_manager = llama\<rparr>"

text \<open>A runtime that is up and answers a pull with status 200 and the given lines.\<close>

definition pull_world :: "line list \<Rightarrow> world" where
  "pull_world ls = down\<lparr>version_replies := [Inr 200], pull_replies := [Inr (ok_stream ls)]\<rparr>"

text \<open>A runtime that is up, lists one model and answers a pull with status 404.\<close>

definition absent_world :: world where
  "absent_world =
     down\<lparr>version_replies := [Inr 200, Inr 200],
          tags_replies := [Inr (listing [''llama3.2''])],
          pull_replies := [Inr \<lparr>stream_status = 404, stream_lines = [], stream_fault = None\<rparr>]\<rparr>"

text \<open>A runtime that is up and answers a streamed generation with status 200 and the given lines.\<close>

definition stream_world :: "line list \<Rightarrow> world" where
  "stream_world ls = down\<lparr>version_replies := [Inr 200], generate_streams := [Inr (ok_stream ls)]\<rparr>"

text \<open>A runtime that is up and lists the model \<open>x\<close>, but answers a generation with status 500.\<close>

definition broken_world :: world where
  "broken_world =
     down\<lparr>version_replies := [Inr 200, Inr 200],
          tags_replies := [Inr (listing [''x''])],
          generate_replies := [Inr \<lparr>status_code = 500, body = Inl ''Expecting value''\<rparr>]\<rparr>"

text \<open>A runtime that is up and lists the model \<open>x\<close>, which answers with the empty text.\<close>

definition silent_world :: world where
  "silent_world =
     down\<lparr>version_replies := [Inr 200, Inr 200],
          tags_replies := [Inr (listing [''x''])],
          generate_replies := [Inr (answer_text [])]\<rparr>"

text \<open>
  The configuration that \<^verbatim>\<open>_load_models_config\<close> writes when there is no file, with
  no provider key set, and a request on the local path for the session \<open>a\<close>.
\<close>

definition default_config :: config where
  "default_config =
     \<lparr>model_preferences =
        [(''coding'', [''codellama'', ''deepseek-coder'', ''claude-3-sonnet'']),
         (''prediction'', [''llama3.1:8b'', ''claude-3-opus'', ''gpt-4'']),
         (''conversation'', [''llama3.2'', ''neural-chat'', ''claude-3-sonnet'']),
         (''analysis'', [''llama3.1:8b'', ''claude-3-opus'', ''deepseek-chat'']),
         (''quick_tasks'', [''phi3:mini'', ''gpt-3.5-turbo'', ''llama3.2''])],
      claude_api_key = [], openai_api_key = [], deepseek_api_key = []\<rparr>"

definition hello :: chat_message where
  "hello = \<lparr>message = ''hello'', model = ''llama3.2'', use_online = False,
             online_provider = None, session_id = Some ''a''\<rparr>"

text \<open>A runtime that is up and answers a generation with a text.\<close>

definition up_world :: world where
  "up_world = down\<lparr>version_replies := [Inr 200], generate_replies := [Inr (answer_text ''Hi there'')]\<rparr>"


section \<open>Vocabulary of the statements\<close>

text \<open>
  What one line of a generation stream contributes to the chunks: the \<^verbatim>\<open>response\<close> of a
  decoded object, nothing for any other line.
\<close>

definition event_response :: "line \<Rightarrow> json list" where
  "event_response l =
     (case l of
        Decoded (JObj d) \<Rightarrow> (case map_of d ''response'' of None \<Rightarrow> [] | Some v \<Rightarrow> [v])
      | _ \<Rightarrow> [])"

text \<open>An event is terminal when its \<^verbatim>\<open>done\<close> is true.\<close>

definition is_terminal :: "pydict \<Rightarrow> bool" where
  "is_terminal d = py_truthy (dict_get d ''done'' (JBool False))"

text \<open>
  The lines after which the stream goes on: an empty line, a line that the decoder rejects
  with \<^verbatim>\<open>JSONDecodeError\<close>, and a decoded object that is not terminal. A line on which
  the decoder raises another exception is not among them, nor is a decoded value that is
  no object.
\<close>

definition carries_on :: "line \<Rightarrow> bool" where
  "carries_on l =
     (case l of
        Blank \<Rightarrow> True
      | Undecodable \<Rightarrow> True
      | Failed e \<Rightarrow> False
      | Decoded (JObj d) \<Rightarrow> \<not> is_terminal d
      | Decoded _ \<Rightarrow> False)"

text \<open>
  The prompt assembler in the words of the specification: the preamble, then each of at
  most the last ten messages of the history, oldest first, as a line
  \<^verbatim>\<open><Role>: <content>\<close>, then the new user turn and the assistant cue. A message is a
  dict with a role, user or assistant, and a content.
\<close>

definition spec_window :: "'a list \<Rightarrow> 'a list" where
  "spec_window history = rev (take 10 (rev history))"

definition is_message :: "pydict \<Rightarrow> bool" where
  "is_message m =
     ((map_of m ''role'' = Some (JStr ''user'') \<or> map_of m ''role'' = Some (JStr ''assistant''))
      \<and> map_of m ''content'' \<noteq> None)"

definition spec_rendered :: "pydict \<Rightarrow> string" where
  "spec_rendered m =
     (if dict_get_none m ''role'' = JStr ''user'' then ''User'' else ''Assistant'')
     @ '': '' @ py_str (dict_get_none m ''content'') @ ''\<newline>''"

definition spec_assemble :: "string \<Rightarrow> pydict list \<Rightarrow> string \<Rightarrow> string" where
  "spec_assemble preamble history new_message =
     preamble @ concat (map spec_rendered (spec_window history))
     @ ''User: '' @ new_message @ ''\<newline>'' @ ''Assistant: ''"

definition preamble :: string where
  "preamble = ''System: '' @ get_system_prompt @ ''\<newline>\<newline>''"

text \<open>A history of fifteen messages.\<close>

definition fifteen :: "pydict list" where
  "fifteen = map (\<lambda>(r, c). turn r (JStr c) ''2025-01-01T00:00:00'')
     [(''user'', ''q1''), (''assistant'', ''a1''), (''user'', ''q2''), (''assistant'', ''a2''),
      (''user'', ''q3''), (''assistant'', ''a3''), (''user'', ''q4''), (''assistant'', ''a4''),
      (''user'', ''q5''), (''assistant'', ''a5''), (''user'', ''q6''), (''assistant'', ''a6''),
      (''user'', ''q7''), (''assistant'', ''a7''), (''user'', ''q8'')]"

text \<open>
  A request takes the local path when the test of line 145,
  \<^verbatim>\<open>chat_request.use_online and chat_request.online_provider\<close>, fails; its session is the
  one it names, or a fresh one (line 132); \<open>unavailable\<close> is the text of line 172 of the
  manager.
\<close>

definition is_local :: "chat_message \<Rightarrow> bool" where
  "is_local chat_request =
     (\<not> (use_online chat_request \<and>
         (case online_provider chat_request of None \<Rightarrow> False | Some p \<Rightarrow> p \<noteq> [])))"

definition session_of :: "chat_message \<Rightarrow> string \<Rightarrow> string" where
  "session_of chat_request uuid4 =
     (case session_id chat_request of
        None \<Rightarrow> uuid4
      | Some s \<Rightarrow> (if s \<noteq> [] then s else uuid4))"

definition unavailable :: string where
  "unavailable = ''Error: Ollama service is not available''"




section \<open>Pulling a model\<close>

text \<open>
  C1. The claim: \<^verbatim>\<open>pull_model\<close> returns true only when the stream holds a status event
  that says success; the lines downloading, verifying, success give true, and the same
  lines without the last one give false. Evaluated on a runtime that is up and answers
  with status 200: both streams give \<open>True\<close>. The second one runs the loop to its end and
  reaches the \<^verbatim>\<open>return True\<close> of line 127.
\<close>

theorem pull_model_stream_end:
  "fst (pull_model ''x'' (pull_world
          [status_event ''downloading'', status_event ''verifying'', status_event ''success'']))
     = True
   \<and> fst (pull_model ''x'' (pull_world
          [status_event ''downloading'', status_event ''verifying'']))
     = True"
  by (simp add: pull_model_def pull_world_def down_def ensure_running_def check_ollama_status_def
      get_version_def post_pull_def ok_stream_def status_event_def pull_event_def dict_get_def
      dict_get_none_def py_lower_def lower_char_def)

section \<open>Switching the model\<close>

text \<open>
  C4. When the model is not in the listing and \<^verbatim>\<open>pull_model\<close> reports failure,
  \<^verbatim>\<open>switch_model\<close> returns \<open>False\<close> and the manager, with its current model, is the one
  it was given.
\<close>

theorem switch_model_pull_failed:
  assumes "get_available_models w = (available_models, w1)"
    and "JStr x \<notin> set available_models"
    and "pull_model x w1 = (False, w2)"
  shows "switch_model x m w = (False, m, w2)"
  using assms by (simp add: switch_model_def)

theorem switch_model_pull_failed_witness:
  "fst (get_available_models absent_world) = [JStr ''llama3.2'']
   \<and> JStr ''x'' \<notin> set (fst (get_available_models absent_world))
   \<and> fst (pull_model ''x'' (snd (get_available_models absent_world))) = False
   \<and> fst (switch_model ''x'' llama absent_world) = False
   \<and> fst (snd (switch_model ''x'' llama absent_world)) = llama"
proof -
  have fa: "fst (get_available_models absent_world) = [JStr ''llama3.2'']"
    by (simp add: get_available_models_def absent_world_def down_def ensure_running_def
        check_ollama_status_def get_version_def get_tags_def listing_def listed_models_def dict_get_def)
  have fc: "fst (pull_model ''x'' (snd (get_available_models absent_world))) = False"
    by (simp add: get_available_models_def absent_world_def down_def ensure_running_def
        check_ollama_status_def get_version_def get_tags_def listing_def listed_models_def dict_get_def
        pull_model_def post_pull_def)
  have a: "get_available_models absent_world
           = ([JStr ''llama3.2''], snd (get_available_models absent_world))"
    using fa by (metis prod.collapse)
  have b: "JStr ''x'' \<notin> set [JStr ''llama3.2'']" by simp
  have c: "pull_model ''x'' (snd (get_available_models absent_world))
           = (False, snd (pull_model ''x'' (snd (get_available_models absent_world))))"
    using fc by (metis prod.collapse)
  have "switch_model ''x'' llama absent_world
        = (False, llama, snd (pull_model ''x'' (snd (get_available_models absent_world))))"
    by (rule switch_model_pull_failed [OF a b c])
  then show ?thesis using fa fc by simp
qed

text \<open>
  C2. The claim: the switch commits only if the probe's answer is non-empty and is no
  error text. Evaluated on a runtime that lists the model but answers the probe with
  status 500: \<^verbatim>\<open>generate_response\<close> returns the error text of line 201, and
  \<^verbatim>\<open>switch_model\<close> returns \<open>True\<close> and sets the current model. The test of the probe at
  line 150, with its branch for a failed test at line 155, lets every non-empty text pass.
\<close>

theorem switch_model_commits_on_error_text:
  "fst (generate_response llama probe_message (Some ''x'') None (snd (get_available_models broken_world)))
     = JStr ''Error: Failed to generate response (Status: 500)''
   \<and> fst (switch_model ''x'' llama broken_world) = True
   \<and> current_model (fst (snd (switch_model ''x'' llama broken_world))) = ''x''"
  by (simp add: switch_model_def get_available_models_def broken_world_def down_def ensure_running_def
        check_ollama_status_def get_version_def get_tags_def listing_def listed_models_def dict_get_def
        generate_response_def post_generate_def llama_def str_nat.simps digit_char_def)

text \<open>
  The outcome of \<^verbatim>\<open>switch_model\<close> in terms of the three calls it makes. The part of the
  claim that the code keeps follows from it: a listed model whose probe gives the empty
  text leaves the current model as it was.
\<close>

lemma switch_model_outcome:
  assumes "get_available_models w = (available_models, w1)"
    and "(if JStr x \<in> set available_models then (True, w1) else pull_model x w1) = (present, w2)"
    and "generate_response m probe_message (Some x) None w2 = (test_response, w3)"
  shows "switch_model x m w =
           (if present \<and> (\<exists>s. s \<noteq> [] \<and> test_response = JStr s)
            then (True, m\<lparr>current_model := x\<rparr>, w3)
            else (False, m, if present then w3 else w2))"
  using assms by (auto simp: switch_model_def py_lower_def split: json.splits if_splits bool.splits)

lemma switch_model_empty_probe:
  "fst (get_available_models silent_world) = [JStr ''x'']
   \<and> fst (generate_response llama probe_message (Some ''x'') None (snd (get_available_models silent_world))) = JStr []
   \<and> fst (switch_model ''x'' llama silent_world) = False
   \<and> fst (snd (switch_model ''x'' llama silent_world)) = llama"
proof -
  have fa: "fst (get_available_models silent_world) = [JStr ''x'']"
    by (simp add: get_available_models_def silent_world_def down_def ensure_running_def
        check_ollama_status_def get_version_def get_tags_def listing_def listed_models_def dict_get_def)
  have fg: "fst (generate_response llama probe_message (Some ''x'') None
                  (snd (get_available_models silent_world))) = JStr []"
    by (simp add: get_available_models_def silent_world_def down_def ensure_running_def
        check_ollama_status_def get_version_def get_tags_def listing_def listed_models_def dict_get_def
        generate_response_def post_generate_def answer_text_def)
  have a: "get_available_models silent_world = ([JStr ''x''], snd (get_available_models silent_world))"
    using fa by (metis prod.collapse)
  have b: "(if JStr ''x'' \<in> set [JStr ''x''] then (True, snd (get_available_models silent_world))
            else pull_model ''x'' (snd (get_available_models silent_world)))
           = (True, snd (get_available_models silent_world))"
    by simp
  have c: "generate_response llama probe_message (Some ''x'') None (snd (get_available_models silent_world))
           = (JStr [], snd (generate_response llama probe_message (Some ''x'') None
                              (snd (get_available_models silent_world))))"
    using fg by (metis prod.collapse)
  show ?thesis
    using switch_model_outcome [OF a b c] fa fg by simp
qed

section \<open>Streaming generation\<close>

lemma stream_chunks_carry:
  "carries_on l \<Longrightarrow> stream_chunks (l # ls) fault = event_response l @ stream_chunks ls fault"
  by (cases l) (auto simp: carries_on_def event_response_def is_terminal_def split: json.splits)

lemma stream_chunks_prefix:
  "\<forall>l \<in> set before. carries_on l \<Longrightarrow>
   stream_chunks (before @ rest) fault = concat (map event_response before) @ stream_chunks rest fault"
  by (induction before) (simp_all add: stream_chunks_carry)

text \<open>
  C3, as claimed: the events a, b and the terminal event with an empty response give the
  chunks a, b and nothing at the terminal event. The loop yields the \<^verbatim>\<open>response\<close> of an
  event (line 248) before it looks at \<^verbatim>\<open>done\<close> (line 250), so the terminal event's own
  response, the empty text, is a third chunk.
\<close>

theorem streaming_yields_terminal_chunk:
  "fst (generate_streaming_response llama ''hi'' None None
         (stream_world [chunk_event ''a'' False, chunk_event ''b'' False, chunk_event '''' True]))
   = [JStr ''a'', JStr ''b'', JStr '''']"
  by (simp add: generate_streaming_response_def stream_world_def down_def ensure_running_def
      check_ollama_status_def get_version_def post_generate_stream_def ok_stream_def chunk_event_def
      dict_get_def)

text \<open>
  A line on which the decoder raises something other than \<^verbatim>\<open>JSONDecodeError\<close> is not
  discarded: the chunks so far are followed by one error chunk and the stream ends there.
\<close>

lemma stream_chunks_decoder_fault:
  "\<forall>l \<in> set before. carries_on l \<Longrightarrow>
   stream_chunks (before @ Failed e # after) fault
   = concat (map event_response before) @ [JStr (''Error: '' @ e)]"
  by (simp add: stream_chunks_prefix)

text \<open>
  C3, amended: when every line before the first terminal event is an empty line, a line
  that the decoder rejects with \<^verbatim>\<open>JSONDecodeError\<close>, or a decoded object, the chunks are
  the responses of the decoded objects up to and including the terminal one, in order;
  the lines rejected with \<^verbatim>\<open>JSONDecodeError\<close> contribute nothing and do not stop the
  stream, and nothing that follows the terminal event is yielded.
\<close>

theorem stream_ends_with_terminal_event:
  assumes "\<forall>l \<in> set before. carries_on l" and "is_terminal d"
  shows "stream_chunks (before @ Decoded (JObj d) # after) fault
         = concat (map event_response (before @ [Decoded (JObj d)]))"
  using assms by (simp add: stream_chunks_prefix is_terminal_def event_response_def)

theorem stream_ends_with_terminal_event_witness:
  "carries_on (chunk_event ''a'' False) \<and> carries_on Undecodable
   \<and> carries_on (chunk_event ''b'' False)
   \<and> is_terminal [(''response'', JStr ''''), (''done'', JBool True)]
   \<and> stream_chunks ([chunk_event ''a'' False, Undecodable, chunk_event ''b'' False]
        @ chunk_event '''' True # [chunk_event ''c'' False]) None
      = [JStr ''a'', JStr ''b'', JStr '''']"
proof -
  have a: "\<forall>l \<in> set [chunk_event ''a'' False, Undecodable, chunk_event ''b'' False]. carries_on l"
    by (simp add: carries_on_def chunk_event_def is_terminal_def dict_get_def)
  have b: "is_terminal [(''response'', JStr ''''), (''done'', JBool True)]"
    by (simp add: is_terminal_def dict_get_def)
  show ?thesis
    using stream_ends_with_terminal_event [OF a b, of "[chunk_event ''c'' False]" None] a b
    by (simp add: chunk_event_def event_response_def)
qed

section \<open>Prompt assembly\<close>

lemma window_last10: "spec_window h = last10 h"
  by (simp add: spec_window_def last10_def take_rev)

lemma add_history_step:
  assumes "is_message m"
  shows "add_history ctx (m # ms) = add_history (ctx @ spec_rendered m) ms"
proof -
  obtain c where c: "map_of m ''content'' = Some c"
    using assms by (auto simp: is_message_def)
  consider (user) "map_of m ''role'' = Some (JStr ''user'')"
    | (assistant) "map_of m ''role'' = Some (JStr ''assistant'')"
    using assms by (auto simp: is_message_def)
  then show ?thesis
  proof cases
    case user
    then show ?thesis
      using c by (simp add: spec_rendered_def dict_get_def dict_get_none_def)
  next
    case assistant
    then show ?thesis
      using c by (simp add: spec_rendered_def dict_get_def dict_get_none_def)
  qed
qed

lemma add_history_rendered:
  "\<forall>m \<in> set ms. is_message m \<Longrightarrow> add_history ctx ms = ctx @ concat (map spec_rendered ms)"
  by (induction ms arbitrary: ctx) (simp_all add: add_history_step del: add_history.simps(2))

lemma set_last10: "set (last10 h) \<subseteq> set h"
  by (simp add: last10_def set_drop_subset)


lemma prepare_prompt_unfold:
  "prepare_prompt new_message (Some history)
   = (if history \<noteq> [] then add_history preamble (last10 history) else preamble)
     @ ''User: '' @ new_message @ ''\<newline>Assistant: ''"
  unfolding prepare_prompt_def preamble_def Let_def by simp


lemma last10_Nil: "last10 [] = []"
  by (simp add: last10_def)

lemma prepare_prompt_assemble:
  assumes "\<forall>m \<in> set history. is_message m"
  shows "prepare_prompt new_message (Some history) = spec_assemble preamble history new_message"
proof (cases "history = []")
  case True
  then show ?thesis
    by (simp only: prepare_prompt_unfold spec_assemble_def window_last10 last10_Nil) simp
next
  case False
  have "\<forall>m \<in> set (last10 history). is_message m"
    using assms set_last10 [of history] by auto
  then have "add_history preamble (last10 history) = preamble @ concat (map spec_rendered (last10 history))"
    by (rule add_history_rendered)
  with False show ?thesis
    by (simp only: prepare_prompt_unfold spec_assemble_def window_last10 if_True not_False_eq_True) simp
qed

text \<open>
  C5. For every history of messages and every new message, \<^verbatim>\<open>_prepare_prompt\<close> is the
  assembler of the specification: the preamble, the last ten messages of the history,
  oldest first, each as \<^verbatim>\<open><Role>: <content>\<close> on a line of its own, then the new user
  turn and the assistant cue with no content. The window holds ten messages when the
  history has ten or more, and all of them otherwise; it is the history without its first
  \<open>length history - 10\<close> messages.
\<close>

theorem prepare_prompt_window:
  assumes "\<forall>m \<in> set history. is_message m"
  shows "prepare_prompt new_message (Some history) = spec_assemble preamble history new_message
         \<and> length (spec_window history) = min 10 (length history)
         \<and> spec_window history = drop (length history - 10) history"
proof -
  have "length (spec_window history) = min 10 (length history)"
    by (simp add: spec_window_def)
  moreover have "spec_window history = drop (length history - 10) history"
    by (simp add: window_last10 last10_def)
  ultimately show ?thesis
    using prepare_prompt_assemble [OF assms] by blast
qed

theorem prepare_prompt_window_witness:
  "list_all is_message fifteen
   \<and> length fifteen = 15
   \<and> length (spec_window fifteen) = 10
   \<and> prepare_prompt ''q9'' (Some fifteen)
       = preamble
         @ ''Assistant: a3\<newline>User: q4\<newline>Assistant: a4\<newline>User: q5\<newline>Assistant: a5\<newline>''
         @ ''User: q6\<newline>Assistant: a6\<newline>User: q7\<newline>Assistant: a7\<newline>User: q8\<newline>''
         @ ''User: q9\<newline>Assistant: ''"
proof -
  have a: "\<forall>m \<in> set fifteen. is_message m"
    by (simp add: fifteen_def is_message_def turn_def)
  have b: "length fifteen = 15" by (simp add: fifteen_def)
  have c: "concat (map spec_rendered (drop 5 fifteen))
           = ''Assistant: a3\<newline>User: q4\<newline>Assistant: a4\<newline>User: q5\<newline>Assistant: a5\<newline>''
             @ ''User: q6\<newline>Assistant: a6\<newline>User: q7\<newline>Assistant: a7\<newline>User: q8\<newline>''"
    by (simp add: fifteen_def spec_rendered_def turn_def dict_get_none_def dict_get_def py_str_def)
  have d: "prepare_prompt ''q9'' (Some fifteen) = spec_assemble preamble fifteen ''q9''"
    and e: "length (spec_window fifteen) = min 10 (length fifteen)"
    and f: "spec_window fifteen = drop (length fifteen - 10) fifteen"
    using prepare_prompt_window [OF a, of "''q9''"] by simp_all
  have g: "spec_window fifteen = drop 5 fifteen"
    using f b by simp
  have a': "list_all is_message fifteen"
    using a by (simp add: list_all_iff)
  show ?thesis
    using a' b e unfolding d spec_assemble_def g c by simp
qed

section \<open>A turn on the local path\<close>

lemma ensure_running_failed:
  "check_ollama_status w = (False, w0) \<Longrightarrow> start_ollama w0 = (False, w1) \<Longrightarrow>
   ensure_running w = (False, w1)"
  by (simp add: ensure_running_def)

lemma generate_response_down:
  "ensure_running w = (False, w1) \<Longrightarrow>
   generate_response m msg mdl h w = (JStr unavailable, w1)"
  by (simp add: generate_response_def unavailable_def)

lemma chat_endpoint_local:
  assumes "is_local chat_request"
    and "generate_response (model_manager srv) (message chat_request) (Some (model chat_request))
           (Some (history_of (sessions srv) (session_of chat_request uuid4)
                  @ [turn ''user'' (JStr (message chat_request)) t_user])) w = (response, w1)"
  shows "chat_endpoint cfg chat_request uuid4 (t_user, t_assistant, t_reply) srv w =
           (Inr [(''response'', response),
                 (''session_id'', JStr (session_of chat_request uuid4)),
                 (''model_used'',
                    (if use_online chat_request
                     then (case online_provider chat_request of None \<Rightarrow> JNull | Some p \<Rightarrow> JStr p)
                     else JStr (model chat_request))),
                 (''timestamp'', JStr t_reply)],
            srv\<lparr>sessions := (sessions srv)(session_of chat_request uuid4 \<mapsto>
                    history_of (sessions srv) (session_of chat_request uuid4)
                    @ [turn ''user'' (JStr (message chat_request)) t_user,
                       turn ''assistant'' response t_assistant])\<rparr>,
            w1)"
proof (cases "sessions srv (session_of chat_request uuid4)")
  case None
  with assms show ?thesis
    unfolding chat_endpoint_def is_local_def session_of_def [symmetric]
    by (auto simp add: Let_def history_of_def domIff split: option.splits)
next
  case (Some h)
  with assms show ?thesis
    unfolding chat_endpoint_def is_local_def session_of_def [symmetric]
    by (auto simp add: Let_def history_of_def domIff split: option.splits)
qed

text \<open>
  C6. A turn on the local path, submitted while the runtime is down (the probe fails) and
  fails to start, is answered and not raised: the reply carries the non-empty text
  \<^verbatim>\<open>Error: Ollama service is not available\<close>, and the session then is what it was,
  followed by the user turn (role \<^verbatim>\<open>user\<close>, the message, its time) and an assistant turn
  (role \<^verbatim>\<open>assistant\<close>, this error text, its time).
\<close>

theorem chat_endpoint_runtime_down:
  assumes "is_local chat_request"
    and "check_ollama_status w = (False, w0)"
    and "start_ollama w0 = (False, w1)"
  shows "chat_endpoint cfg chat_request uuid4 (t_user, t_assistant, t_reply) srv w =
           (Inr [(''response'', JStr ''Error: Ollama service is not available''),
                 (''session_id'', JStr (session_of chat_request uuid4)),
                 (''model_used'',
                    (if use_online chat_request
                     then (case online_provider chat_request of None \<Rightarrow> JNull | Some p \<Rightarrow> JStr p)
                     else JStr (model chat_request))),
                 (''timestamp'', JStr t_reply)],
            srv\<lparr>sessions := (sessions srv)(session_of chat_request uuid4 \<mapsto>
                    (case sessions srv (session_of chat_request uuid4) of None \<Rightarrow> [] | Some h \<Rightarrow> h)
                    @ [[(''role'', JStr ''user''),
                        (''content'', JStr (message chat_request)),
                        (''timestamp'', JStr t_user)],
                       [(''role'', JStr ''assistant''),
                        (''content'', JStr ''Error: Ollama service is not available''),
                        (''timestamp'', JStr t_assistant)]])\<rparr>,
            w1)
         \<and> length ''Error: Ollama service is not available'' > 0"
proof -
  have "ensure_running w = (False, w1)"
    using assms(2,3) by (rule ensure_running_failed)
  then have "generate_response (model_manager srv) (message chat_request) (Some (model chat_request))
           (Some (history_of (sessions srv) (session_of chat_request uuid4)
                  @ [turn ''user'' (JStr (message chat_request)) t_user])) w = (JStr unavailable, w1)"
    by (rule generate_response_down)
  from chat_endpoint_local [OF assms(1) this]
  show ?thesis by (simp add: unavailable_def turn_def history_of_def)
qed

theorem chat_endpoint_runtime_down_witness:
  "fst (check_ollama_status down) = False
   \<and> fst (start_ollama (snd (check_ollama_status down))) = False
   \<and> fst (chat_endpoint default_config hello ''u'' (''t1'', ''t2'', ''t3'') two_sessions down)
       = Inr [(''response'', JStr ''Error: Ollama service is not available''),
              (''session_id'', JStr ''a''),
              (''model_used'', JStr ''llama3.2''),
              (''timestamp'', JStr ''t3'')]
   \<and> sessions (fst (snd (chat_endpoint default_config hello ''u'' (''t1'', ''t2'', ''t3'')
          two_sessions down))) ''a''
       = Some [[(''role'', JStr ''user''), (''content'', JStr ''hi''), (''timestamp'', JStr ''t0'')],
               [(''role'', JStr ''user''), (''content'', JStr ''hello''), (''timestamp'', JStr ''t1'')],
               [(''role'', JStr ''assistant''),
                (''content'', JStr ''Error: Ollama service is not available''),
                (''timestamp'', JStr ''t2'')]]"
proof -
  have l: "is_local hello"
    by (simp add: is_local_def hello_def)
  have fc: "fst (check_ollama_status down) = False"
    by (simp add: check_ollama_status_def get_version_def down_def)
  have fs: "fst (start_ollama (snd (check_ollama_status down))) = False"
    by (simp add: start_ollama_def check_ollama_status_def get_version_def down_def
        popen_serve_def sleep_def)
  have c: "check_ollama_status down = (False, snd (check_ollama_status down))"
    using fc by (metis prod.collapse)
  have s: "start_ollama (snd (check_ollama_status down))
           = (False, snd (start_ollama (snd (check_ollama_status down))))"
    using fs by (metis prod.collapse)
  show ?thesis
    using chat_endpoint_runtime_down [OF l c s, of default_config "''u''" "''t1''" "''t2''" "''t3''" two_sessions]
      fc fs
    by (simp add: session_of_def hello_def two_sessions_def turn_def)
qed

lemma sent_post_generate:
  "sent (snd (post_generate mdl prompt w)) = sent w @ [PostGenerate mdl prompt False]"
  by (simp add: post_generate_def split: list.splits)

lemma generate_response_world:
  "ensure_running w = (True, w1) \<Longrightarrow>
   snd (generate_response m msg mdl h w)
   = snd (post_generate (model_to_use m mdl) (prepare_prompt msg h) w1)"
  by (simp add: generate_response_def split: prod.splits sum.splits json.splits)

lemma last10_snoc: "last10 (xs @ [x]) = drop (length xs - 9) xs @ [x]"
  by (simp add: last10_def)

lemma add_history_append:
  "add_history ctx (xs @ ys) = add_history (add_history ctx xs) ys"
  by (induction xs arbitrary: ctx) (simp_all add: Let_def)

lemma add_history_user_turn:
  "add_history ctx [turn ''user'' (JStr msg) t] = ctx @ ''User: '' @ msg @ ''\<newline>''"
  by (simp add: turn_def dict_get_def py_str_def)

lemma prepare_prompt_after_append:
  "prepare_prompt msg (Some (old @ [turn ''user'' (JStr msg) t]))
   = add_history preamble (drop (length old - 9) old)
     @ ''User: '' @ msg @ ''\<newline>'' @ ''User: '' @ msg @ ''\<newline>'' @ ''Assistant: ''"
proof -
  have "prepare_prompt msg (Some (old @ [turn ''user'' (JStr msg) t]))
        = add_history preamble (last10 (old @ [turn ''user'' (JStr msg) t]))
          @ ''User: '' @ msg @ ''\<newline>Assistant: ''"
    unfolding prepare_prompt_def preamble_def Let_def by simp
  also have "add_history preamble (last10 (old @ [turn ''user'' (JStr msg) t]))
        = add_history preamble (drop (length old - 9) old) @ ''User: '' @ msg @ ''\<newline>''"
    unfolding last10_snoc add_history_append add_history_user_turn ..
  finally show ?thesis by simp
qed

text \<open>
  C9. On the local path, when the runtime is running, the prompt that \<^verbatim>\<open>chat_endpoint\<close>
  sends holds the new message twice: once as the last line of the history, where line 138
  has just put it (after at most nine older messages), and once more as the new user turn
  that \<^verbatim>\<open>_prepare_prompt\<close> appends.
\<close>

theorem chat_endpoint_prompt_repeats_message:
  assumes "is_local chat_request"
    and "ensure_running w = (True, w1)"
  shows "sent (snd (snd (chat_endpoint cfg chat_request uuid4 (t_user, t_assistant, t_reply) srv w)))
         = sent w1
           @ [PostGenerate (model_to_use (model_manager srv) (Some (model chat_request)))
                (add_history preamble
                   (drop (length (history_of (sessions srv) (session_of chat_request uuid4)) - 9)
                      (history_of (sessions srv) (session_of chat_request uuid4)))
                 @ ''User: '' @ message chat_request @ ''\<newline>''
                 @ ''User: '' @ message chat_request @ ''\<newline>''
                 @ ''Assistant: '')
                False]"
proof -
  let ?h = "history_of (sessions srv) (session_of chat_request uuid4)
            @ [turn ''user'' (JStr (message chat_request)) t_user]"
  let ?g = "generate_response (model_manager srv) (message chat_request)
              (Some (model chat_request)) (Some ?h) w"
  have "?g = (fst ?g, snd ?g)" by simp
  from chat_endpoint_local [OF assms(1) this]
  have "snd (snd (chat_endpoint cfg chat_request uuid4 (t_user, t_assistant, t_reply) srv w)) = snd ?g"
    by simp
  also have "\<dots> = snd (post_generate (model_to_use (model_manager srv) (Some (model chat_request)))
                         (prepare_prompt (message chat_request) (Some ?h)) w1)"
    using assms(2) by (rule generate_response_world)
  finally show ?thesis
    by (simp only: sent_post_generate prepare_prompt_after_append)
qed

theorem chat_endpoint_prompt_repeats_message_witness:
  "fst (ensure_running up_world) = True
   \<and> sent (snd (snd (chat_endpoint default_config hello ''u'' (''t1'', ''t2'', ''t3'') two_sessions up_world)))
       = [GetVersion,
          PostGenerate ''llama3.2''
            (preamble @ ''User: hi\<newline>'' @ ''User: hello\<newline>'' @ ''User: hello\<newline>''
             @ ''Assistant: '')
            False]"
proof -
  have l: "is_local hello"
    by (simp add: is_local_def hello_def)
  have fe: "fst (ensure_running up_world) = True"
    by (simp add: ensure_running_def check_ollama_status_def get_version_def up_world_def down_def)
  have se: "sent (snd (ensure_running up_world)) = [GetVersion]"
    by (simp add: ensure_running_def check_ollama_status_def get_version_def up_world_def down_def)
  have e: "ensure_running up_world = (True, snd (ensure_running up_world))"
    using fe by (metis prod.collapse)
  have h: "history_of (sessions two_sessions) (session_of hello ''u'') = [turn ''user'' (JStr ''hi'') ''t0'']"
    by (simp add: history_of_def two_sessions_def session_of_def hello_def)
  have m: "model_to_use (model_manager two_sessions) (Some (model hello)) = ''llama3.2''"
    by (simp add: model_to_use_def hello_def)
  have msg: "message hello = ''hello''"
    by (simp add: hello_def)
  have ah: "add_history preamble
              (drop (length [turn ''user'' (JStr ''hi'') ''t0''] - 9) [turn ''user'' (JStr ''hi'') ''t0''])
            = preamble @ ''User: hi\<newline>''"
    by (simp add: add_history_user_turn del: add_history.simps)
  show ?thesis
    using chat_endpoint_prompt_repeats_message [OF l e, of default_config "''u''" "''t1''" "''t2''" "''t3''" two_sessions]
      fe
    unfolding h m msg se ah
    by simp
qed

text \<open>
  \<^verbatim>\<open>chat_endpoint\<close> is the only function that appends to a session. Whatever path a turn
  takes, it appends a user turn and an assistant turn, so every history that the program
  hands to \<^verbatim>\<open>_prepare_prompt\<close> is a list of messages.
\<close>

lemma is_message_turn:
  "is_message (turn ''user'' c t)" "is_message (turn ''assistant'' c t)"
  by (simp_all add: is_message_def turn_def)

lemma chat_endpoint_sessions:
  "\<exists>response.
     sessions (fst (snd (chat_endpoint cfg chat_request uuid4 (t_user, t_assistant, t_reply) srv w)))
     = (sessions srv)(session_of chat_request uuid4 \<mapsto>
          history_of (sessions srv) (session_of chat_request uuid4)
          @ [turn ''user'' (JStr (message chat_request)) t_user,
             turn ''assistant'' response t_assistant])"
proof (cases "sessions srv (session_of chat_request uuid4)")
  case None
  then show ?thesis
    unfolding chat_endpoint_def session_of_def [symmetric]
    by (auto simp add: Let_def history_of_def domIff split: prod.splits)
next
  case (Some h)
  then show ?thesis
    unfolding chat_endpoint_def session_of_def [symmetric]
    by (auto simp add: Let_def history_of_def domIff split: prod.splits)
qed

lemma chat_endpoint_keeps_messages:
  assumes "\<And>sid h. sessions srv sid = Some h \<Longrightarrow> list_all is_message h"
    and "sessions (fst (snd (chat_endpoint cfg chat_request uuid4 (t_user, t_assistant, t_reply) srv w)))
           sid = Some h"
  shows "list_all is_message h"
proof -
  obtain response where s:
    "sessions (fst (snd (chat_endpoint cfg chat_request uuid4 (t_user, t_assistant, t_reply) srv w)))
     = (sessions srv)(session_of chat_request uuid4 \<mapsto>
          history_of (sessions srv) (session_of chat_request uuid4)
          @ [turn ''user'' (JStr (message chat_request)) t_user,
             turn ''assistant'' response t_assistant])"
    using chat_endpoint_sessions by blast
  have old: "list_all is_message (history_of (sessions srv) (session_of chat_request uuid4))"
    using assms(1) by (auto simp: history_of_def split: option.splits)
  show ?thesis
  proof (cases "sid = session_of chat_request uuid4")
    case True
    then show ?thesis
      using assms(2) old unfolding s by (auto simp: is_message_turn)
  next
    case False
    then show ?thesis
      using assms unfolding s by auto
  qed
qed

section \<open>Choosing a model for a task\<close>





section \<open>Starting the runtime from several callers\<close>









text \<open>
  A single call, resumed three times, ends with the result of \<^verbatim>\<open>start_ollama\<close> on a world
  that gives the same answers: the places of a call are those of the function.
\<close>

lemma one_call_is_start_ollama:
  "calls (run [\<lparr>who = 0, answer = a1, popen_fault = f\<rparr>,
               \<lparr>who = 0, answer = a, popen_fault = f'\<rparr>,
               \<lparr>who = 0, answer = a2, popen_fault = f''\<rparr>] (concurrent_calls 1))
   = [Finished (fst (start_ollama (down\<lparr>version_replies := [a1, a2], popen_faults := [f]\<rparr>)))]"
  by (cases a1; cases f; cases a2)
     (auto simp: concurrent_calls_def deliver_def start_ollama_def check_ollama_status_def
        get_version_def popen_serve_def sleep_def down_def)



section \<open>Sessions\<close>

text \<open>
  C10. Clearing a session always reports success; afterwards the id has no history
  (\<^verbatim>\<open>get_session_history\<close> gives no messages), every other session is as it was,
  clearing an id that is not in the store changes nothing, and clearing twice leaves the
  store that clearing once leaves.
\<close>

theorem clear_session_idempotent_total:
  "fst (clear_session sid srv) = [(''success'', JBool True), (''message'', JStr ''Session cleared'')]
   \<and> sessions (snd (clear_session sid srv)) sid = None
   \<and> get_session_history sid (snd (clear_session sid srv))
       = [(''session_id'', JStr sid), (''messages'', JArr [])]
   \<and> (\<forall>other. other \<noteq> sid \<longrightarrow> sessions (snd (clear_session sid srv)) other = sessions srv other)
   \<and> (sid \<notin> dom (sessions srv) \<longrightarrow> snd (clear_session sid srv) = srv)
   \<and> snd (clear_session sid (snd (clear_session sid srv))) = snd (clear_session sid srv)"
  by (auto simp: clear_session_def get_session_history_def history_of_def)

theorem clear_session_witness:
  "''b'' \<noteq> ''a'' \<and> ''c'' \<notin> dom (sessions two_sessions)
   \<and> sessions (snd (clear_session ''a'' two_sessions)) ''b'' = sessions two_sessions ''b''
   \<and> snd (clear_session ''c'' two_sessions) = two_sessions
   \<and> history_of (sessions (snd (clear_session ''a'' two_sessions))) ''a'' = []"
  using clear_session_idempotent_total [of "''a''" two_sessions]
        clear_session_idempotent_total [of "''c''" two_sessions]
  by (simp add: two_sessions_def history_of_def)

end
